theory Spec2Isabelle
  imports Main
begin

section \<open>Values, exceptions and settings\<close>

text \<open>
  Decoded token payloads are Python dicts of JSON values. \<open>payload.get(k)\<close> gives
  \<open>None\<close> (here \<open>JNull\<close>) for a missing key. Strings are lists of code points below
  256; timestamps are seconds (UTC).
\<close>

datatype json = JNull | JBool bool | JInt int | JStr string | JList "json list"
  | JObj "(string \<times> json) list"

type_synonym payload = "(string \<times> json) list"

type_synonym timestamp = int

definition payload_get :: "payload \<Rightarrow> string \<Rightarrow> json" where
  "payload_get p k = (case map_of p k of None \<Rightarrow> JNull | Some v \<Rightarrow> v)"

text \<open>Python truthiness, as used by \<open>if not user_id\<close>.\<close>

fun truthy :: "json \<Rightarrow> bool" where
  "truthy JNull = False"
| "truthy (JBool b) = b"
| "truthy (JInt i) = (i \<noteq> 0)"
| "truthy (JStr s) = (s \<noteq> [])"
| "truthy (JList xs) = (xs \<noteq> [])"
| "truthy (JObj kvs) = (kvs \<noteq> [])"

text \<open>The exception classes of \<open>app/exceptions.py\<close>, with their default messages and status codes.\<close>

datatype error_class = UserNotFoundError | UserAlreadyExistsError | InvalidCredentialsError
  | InvalidTokenError | ExpiredTokenError | InactiveUserError | InvalidTokenTypeError
  | InvalidResetTokenError

fun default_message :: "error_class \<Rightarrow> string" where
  "default_message UserNotFoundError = ''User not found''"
| "default_message UserAlreadyExistsError = ''User with this email already exists''"
| "default_message InvalidCredentialsError = ''Incorrect email or password''"
| "default_message InvalidTokenError = ''Invalid token''"
| "default_message ExpiredTokenError = ''Token has expired''"
| "default_message InactiveUserError = ''User account is inactive''"
| "default_message InvalidTokenTypeError = ''Invalid token type''"
| "default_message InvalidResetTokenError = ''Invalid or expired reset token''"

fun class_status_code :: "error_class \<Rightarrow> nat" where
  "class_status_code UserNotFoundError = 404"
| "class_status_code UserAlreadyExistsError = 409"
| "class_status_code InvalidCredentialsError = 401"
| "class_status_code InvalidTokenError = 401"
| "class_status_code ExpiredTokenError = 401"
| "class_status_code InactiveUserError = 400"
| "class_status_code InvalidTokenTypeError = 401"
| "class_status_code InvalidResetTokenError = 400"

text \<open>
  Python exceptions (subclasses of \<open>Exception\<close>) as values: an \<open>AuthenticationError\<close>
  carries its class, message and status code; \<open>NameError\<close> is what evaluating an
  unbound global name raises; \<open>LibraryError\<close> stands for any exception raised inside
  the external library.
\<close>

datatype exn = AuthenticationError error_class string nat | NameError string
  | TypeError string | LibraryError string

definition raise_error :: "error_class \<Rightarrow> string option \<Rightarrow> exn" where
  "raise_error c msg =
     AuthenticationError c (case msg of None \<Rightarrow> default_message c | Some m \<Rightarrow> m)
       (class_status_code c)"

record security_settings =
  access_token_expires_minutes :: int

record app_settings =
  environment :: string

record settings =
  security :: security_settings
  app :: app_settings
  frontend_url :: string

text \<open>
  The package \<open>fastapi_core\<close> is an external collaborator (password hashing and the
  token codec); its functions are parameters of the model. The token functions take the
  \<open>settings\<close> argument as an option: \<open>None\<close> is a call that omits it.
  \<open>core_verify_token\<close> returns its payload or the exception it raises. The three
  constructors return a token whenever they are called with settings. Whether they declare
  a default for the parameter \<open>settings\<close> cannot be read from the repository:
  \<open>core_settings_optional\<close> tells it, and where they declare none, a call that omits the
  argument raises \<open>TypeError\<close>.
\<close>

record fastapi_core =
  core_get_password_hash :: "string \<Rightarrow> string"
  core_verify_password :: "string \<Rightarrow> string \<Rightarrow> bool"
  core_create_access_token :: "payload \<Rightarrow> settings option \<Rightarrow> string"
  core_create_refresh_token :: "payload \<Rightarrow> settings option \<Rightarrow> string"
  core_create_password_reset_token :: "payload \<Rightarrow> settings option \<Rightarrow> string"
  core_verify_token :: "string \<Rightarrow> settings option \<Rightarrow> exn + payload"
  core_settings_optional :: bool

section \<open>The account entity (\<open>app/models/user.py\<close>)\<close>

record user =
  user_id :: string
  email :: string
  name :: string
  hashed_password :: string
  is_active :: bool
  created_at :: timestamp
  updated_at :: "timestamp option"
  reset_token :: "string option"
  reset_token_expiry :: "timestamp option"
  tier :: string
  user_settings :: payload

text \<open>
  The names bound at module level in \<open>app/models/user.py\<close>: its imports and the class
  it defines. A global name that is not among them (and is no builtin) raises
  \<open>NameError\<close> when evaluated.
\<close>

definition user_module_names :: "string list" where
  "user_module_names =
     [''secrets'', ''datetime'', ''Any'', ''Dict'', ''TYPE_CHECKING'',
      ''Boolean'', ''Column'', ''DateTime'', ''String'', ''Text'', ''func'',
      ''JSONB'', ''relationship'', ''ULID'',
      ''verify_password'', ''get_password_hash'', ''Base'', ''User'']"

definition verify_password :: "fastapi_core \<Rightarrow> user \<Rightarrow> string \<Rightarrow> bool" where
  "verify_password core self password = core_verify_password core password (hashed_password self)"

definition set_password :: "fastapi_core \<Rightarrow> string \<Rightarrow> user \<Rightarrow> user" where
  "set_password core password self = self\<lparr>hashed_password := core_get_password_hash core password\<rparr>"

definition set_reset_token :: "string \<Rightarrow> timestamp \<Rightarrow> user \<Rightarrow> user" where
  "set_reset_token token expiry self = self\<lparr>reset_token := Some token, reset_token_expiry := Some expiry\<rparr>"

definition clear_reset_token :: "user \<Rightarrow> user" where
  "clear_reset_token self = self\<lparr>reset_token := None, reset_token_expiry := None\<rparr>"

text \<open>
  The expression \<open>verify_token(token)\<close> evaluated in a module whose global names are
  \<open>names\<close>: a \<open>NameError\<close> when the name is unbound, else the library call without
  the settings argument.
\<close>

definition verify_token_call :: "string list \<Rightarrow> fastapi_core \<Rightarrow> string \<Rightarrow> exn + payload" where
  "verify_token_call names core token =
     (if ''verify_token'' \<in> set names then core_verify_token core token None
      else Inl (NameError ''verify_token''))"

text \<open>\<open>secrets.compare_digest\<close> on two \<open>str\<close> arguments accepts ASCII strings only.\<close>

definition is_ascii :: "string \<Rightarrow> bool" where
  "is_ascii s = list_all (\<lambda>c. (of_char c :: nat) < 128) s"

definition compare_digest :: "string \<Rightarrow> string \<Rightarrow> exn + bool" where
  "compare_digest a b =
     (if is_ascii a \<and> is_ascii b then Inr (a = b)
      else Inl (TypeError ''comparing strings with non-ASCII characters is not supported''))"

text \<open>
  \<open>User.is_reset_token_valid\<close>, in a module with global names \<open>names\<close>. Every
  exception raised inside the \<open>try\<close> block ends in \<open>return False\<close>.
\<close>

definition is_reset_token_valid_in :: "string list \<Rightarrow> fastapi_core \<Rightarrow> user \<Rightarrow> string \<Rightarrow> bool" where
  "is_reset_token_valid_in names core self token =
     (case reset_token self of
        None \<Rightarrow> False
      | Some stored \<Rightarrow>
          if stored = [] then False
          else (case verify_token_call names core token of
                  Inl e \<Rightarrow> False
                | Inr payload \<Rightarrow>
                    if payload_get payload ''type'' \<noteq> JStr ''password_reset'' then False
                    else (case compare_digest stored token of
                            Inl e \<Rightarrow> False
                          | Inr same \<Rightarrow>
                              if \<not> same then False
                              else if payload_get payload ''sub'' \<noteq> JStr (user_id self) then False
                              else True)))"

text \<open>The method as the repository has it: the module is \<open>app/models/user.py\<close>.\<close>

definition is_reset_token_valid :: "fastapi_core \<Rightarrow> user \<Rightarrow> string \<Rightarrow> bool" where
  "is_reset_token_valid = is_reset_token_valid_in user_module_names"

section \<open>The record store\<close>

text \<open>
  The table \<open>users\<close> as the list of its rows. A session sees the committed rows
  (\<open>persisted\<close>) through its own copy (\<open>working\<close>), which also holds the changes not
  yet committed. A session that is closed without a commit leaves \<open>persisted\<close> as it was.
\<close>

record session =
  persisted :: "user list"
  working :: "user list"

text \<open>\<open>db.query(User).filter(P).first()\<close>\<close>

definition query_first :: "(user \<Rightarrow> bool) \<Rightarrow> session \<Rightarrow> user option" where
  "query_first P s = find P (working s)"

text \<open>Mutating the object that \<open>query_first P\<close> returned changes that row of the session.\<close>

fun update_first :: "('a \<Rightarrow> bool) \<Rightarrow> ('a \<Rightarrow> 'a) \<Rightarrow> 'a list \<Rightarrow> 'a list" where
  "update_first P f [] = []"
| "update_first P f (x # xs) = (if P x then f x # xs else x # update_first P f xs)"

definition mutate_first :: "(user \<Rightarrow> bool) \<Rightarrow> (user \<Rightarrow> user) \<Rightarrow> session \<Rightarrow> session" where
  "mutate_first P f s = s\<lparr>working := update_first P f (working s)\<rparr>"

text \<open>\<open>db.add(user)\<close>\<close>

definition add :: "user \<Rightarrow> session \<Rightarrow> session" where
  "add u s = s\<lparr>working := working s @ [u]\<rparr>"

text \<open>
  Writing the session out: a changed row is updated, and the column \<open>updated_at\<close>
  (\<open>onupdate=func.now()\<close>) is stamped by the update; a new row is inserted as it is.
\<close>

fun flush :: "timestamp \<Rightarrow> user list \<Rightarrow> user list \<Rightarrow> user list" where
  "flush now (p # ps) (w # ws) =
     (if w = p then w else w\<lparr>updated_at := Some now\<rparr>) # flush now ps ws"
| "flush now [] ws = ws"
| "flush now ps [] = []"

text \<open>\<open>db.commit()\<close>\<close>

definition commit :: "timestamp \<Rightarrow> session \<Rightarrow> session" where
  "commit now s =
     (let rows = flush now (persisted s) (working s)
      in s\<lparr>persisted := rows, working := rows\<rparr>)"

text \<open>
  \<open>User(email=..., name=...)\<close> with the column defaults the insert fills in; \<open>new_id\<close>
  is the ULID generated for the row and \<open>now\<close> the server's clock. The password hash
  is set by the caller on the next line.
\<close>

definition User :: "string \<Rightarrow> timestamp \<Rightarrow> string \<Rightarrow> string \<Rightarrow> user" where
  "User new_id now e n =
     \<lparr>user_id = new_id, email = e, name = n, hashed_password = [], is_active = True,
      created_at = now, updated_at = None, reset_token = None, reset_token_expiry = None,
      tier = ''free'', user_settings = []\<rparr>"

section \<open>Response schemas (\<open>app/schemas/auth.py\<close>) and \<open>User.to_dict\<close>\<close>

record UserResponse =
  resp_id :: string
  resp_email :: string
  resp_name :: string
  isActive :: bool
  createdAt :: timestamp
  resp_tier :: string

record TokenResponse =
  accessToken :: string
  refreshToken :: string
  tokenType :: string
  expiresIn :: int

text \<open>\<open>LoginResponse\<close> has the four fields of \<open>TokenResponse\<close> and the field \<open>user\<close>.\<close>

record LoginResponse = TokenResponse +
  login_user :: UserResponse

record MessageResponse =
  message :: string

text \<open>
  \<open>UserResponse.model_validate(user)\<close> reads the attributes the schema names
  (\<open>isActive\<close> and \<open>createdAt\<close> through their aliases \<open>is_active\<close> and
  \<open>created_at\<close>). The validation pydantic runs on the values read (\<open>EmailStr\<close>) is
  outside the model: the projection is taken for rows whose values pass it.
\<close>

definition model_validate :: "user \<Rightarrow> UserResponse" where
  "model_validate u =
     \<lparr>resp_id = user_id u, resp_email = email u, resp_name = name u, isActive = is_active u,
      createdAt = created_at u, resp_tier = tier u\<rparr>"

datatype field_value = VStr string | VBool bool | VTime timestamp

definition to_dict :: "user \<Rightarrow> (string \<times> field_value) list" where
  "to_dict self =
     [(''id'', VStr (user_id self)),
      (''email'', VStr (email self)),
      (''name'', VStr (name self)),
      (''isActive'', VBool (is_active self)),
      (''createdAt'', VTime (created_at self)),
      (''tier'', VStr (tier self))]"

text \<open>The keys of the JSON object a \<open>UserResponse\<close> serialises to, in field order.\<close>

definition UserResponse_fields :: "UserResponse \<Rightarrow> (string \<times> field_value) list" where
  "UserResponse_fields r =
     [(''id'', VStr (resp_id r)),
      (''email'', VStr (resp_email r)),
      (''name'', VStr (resp_name r)),
      (''isActive'', VBool (isActive r)),
      (''createdAt'', VTime (createdAt r)),
      (''tier'', VStr (resp_tier r))]"

section \<open>The authentication service (\<open>app/services/auth_service.py\<close>)\<close>

text \<open>
  \<open>email.lower().strip()\<close>. Among the code points below 256, \<open>str.lower\<close> maps
  \<open>A\<close>..\<open>Z\<close> and the capital letters 192..214 and 216..222 to the letter 32 above,
  and \<open>str.strip\<close> removes the characters for which \<open>str.isspace\<close> holds: 9..13,
  28..32, 133 and 160.
\<close>

definition lower_char :: "char \<Rightarrow> char" where
  "lower_char c =
     (let n = (of_char c :: nat)
      in if (65 \<le> n \<and> n \<le> 90) \<or> (192 \<le> n \<and> n \<le> 214) \<or> (216 \<le> n \<and> n \<le> 222)
         then char_of (n + 32) else c)"

definition is_space :: "char \<Rightarrow> bool" where
  "is_space c = ((of_char c :: nat) \<in> {9, 10, 11, 12, 13, 28, 29, 30, 31, 32, 133, 160})"

definition strip :: "string \<Rightarrow> string" where
  "strip s = rev (dropWhile is_space (rev (dropWhile is_space s)))"

definition normalize_email :: "string \<Rightarrow> string" where
  "normalize_email e = strip (map lower_char e)"

text \<open>\<open>AuthService._create_login_response\<close>: both tokens are made with the settings passed.\<close>

definition create_login_response :: "fastapi_core \<Rightarrow> settings \<Rightarrow> user \<Rightarrow> LoginResponse" where
  "create_login_response core cfg u =
     (let access_token = core_create_access_token core [(''sub'', JStr (user_id u))] (Some cfg);
          refresh_token = core_create_refresh_token core [(''sub'', JStr (user_id u))] (Some cfg)
      in \<lparr>accessToken = access_token, refreshToken = refresh_token, tokenType = ''bearer'',
          expiresIn = access_token_expires_minutes (security cfg) * 60,
          login_user = model_validate u\<rparr>)"

text \<open>
  Every operation takes the session and returns its result, or the exception it raises,
  with the session it leaves. \<open>new_id\<close> and \<open>now\<close> are the identifier and the clock
  value the store assigns.
\<close>

definition register_user ::
  "fastapi_core \<Rightarrow> settings \<Rightarrow> string \<Rightarrow> timestamp \<Rightarrow> string \<Rightarrow> string \<Rightarrow> string \<Rightarrow> session
     \<Rightarrow> (exn + LoginResponse) \<times> session" where
  "register_user core cfg new_id now em password nm s =
     (let normalized_email = normalize_email em
      in case query_first (\<lambda>u. email u = normalized_email) s of
           Some existing_user \<Rightarrow> (Inl (raise_error UserAlreadyExistsError None), s)
         | None \<Rightarrow>
             (let u = set_password core password (User new_id now normalized_email nm);
                  s' = commit now (add u s)
              in (Inr (create_login_response core cfg u), s')))"

definition authenticate_user ::
  "fastapi_core \<Rightarrow> settings \<Rightarrow> string \<Rightarrow> string \<Rightarrow> session \<Rightarrow> (exn + LoginResponse) \<times> session" where
  "authenticate_user core cfg em password s =
     (let normalized_email = normalize_email em
      in case query_first (\<lambda>u. email u = normalized_email) s of
           None \<Rightarrow> (Inl (raise_error InvalidCredentialsError None), s)
         | Some u \<Rightarrow>
             if \<not> verify_password core u password
             then (Inl (raise_error InvalidCredentialsError None), s)
             else if \<not> is_active u then (Inl (raise_error InactiveUserError None), s)
             else (Inr (create_login_response core cfg u), s))"

text \<open>
  \<open>AuthService.refresh_tokens\<close>. An exception of \<open>verify_token\<close> propagates. The new
  tokens are made by calls that omit the settings argument: they raise \<open>TypeError\<close> if
  the library declares no default for it.
\<close>

definition refresh_tokens ::
  "fastapi_core \<Rightarrow> settings \<Rightarrow> string \<Rightarrow> session \<Rightarrow> (exn + TokenResponse) \<times> session" where
  "refresh_tokens core cfg refresh_token s =
     (case core_verify_token core refresh_token (Some cfg) of
        Inl e \<Rightarrow> (Inl e, s)
      | Inr payload \<Rightarrow>
          if payload_get payload ''type'' \<noteq> JStr ''refresh''
          then (Inl (raise_error InvalidTokenTypeError None), s)
          else (let sub = payload_get payload ''sub''
                in if \<not> truthy sub
                   then (Inl (raise_error InvalidTokenError (Some ''Invalid token payload'')), s)
                   else (case sub of
                           JStr sid \<Rightarrow>
                             if length sid \<noteq> 26
                             then (Inl (raise_error InvalidTokenError
                                          (Some ''Invalid user ID format in token'')), s)
                             else (case query_first (\<lambda>u. user_id u = sid) s of
                                     None \<Rightarrow> (Inl (raise_error UserNotFoundError None), s)
                                   | Some u \<Rightarrow>
                                       if \<not> is_active u
                                       then (Inl (raise_error InactiveUserError None), s)
                                       else if \<not> core_settings_optional core
                                       then (Inl (TypeError
                                                    ''create_access_token() missing 1 required positional argument: settings''),
                                             s)
                                       else (Inr \<lparr>accessToken =
                                                    core_create_access_token core
                                                      [(''sub'', JStr (user_id u))] None,
                                                  refreshToken =
                                                    core_create_refresh_token core
                                                      [(''sub'', JStr (user_id u))] None,
                                                  tokenType = ''bearer'',
                                                  expiresIn =
                                                    access_token_expires_minutes (security cfg) * 60\<rparr>,
                                             s))
                         | _ \<Rightarrow> (Inl (raise_error InvalidTokenError
                                        (Some ''Invalid user ID format in token'')), s))))"

definition get_user_profile :: "user \<Rightarrow> UserResponse" where
  "get_user_profile u = model_validate u"

definition request_password_reset ::
  "fastapi_core \<Rightarrow> settings \<Rightarrow> timestamp \<Rightarrow> string \<Rightarrow> session \<Rightarrow> string option \<times> session" where
  "request_password_reset core cfg now em s =
     (let normalized_email = normalize_email em
      in case query_first (\<lambda>u. email u = normalized_email) s of
           None \<Rightarrow> (None, s)
         | Some u \<Rightarrow>
             if \<not> is_active u then (None, s)
             else (let token = core_create_password_reset_token core
                                 [(''sub'', JStr (user_id u))] (Some cfg);
                       s' = mutate_first (\<lambda>u. email u = normalized_email)
                              (set_reset_token token (now + 3600)) s
                   in (Some token, commit now s')))"

text \<open>
  The loop of \<open>AuthService.reset_password\<close> over the rows of the table: the query keeps
  the rows whose \<open>reset_token\<close> is not null; the first of them that validates the token
  gets the new password and loses its reset token. \<open>None\<close>: the loop ended, no row matched.
\<close>

fun reset_password_loop ::
  "string list \<Rightarrow> fastapi_core \<Rightarrow> string \<Rightarrow> string \<Rightarrow> user list \<Rightarrow> user list option" where
  "reset_password_loop names core token new_password [] = None"
| "reset_password_loop names core token new_password (u # rest) =
     (if reset_token u \<noteq> None \<and> is_reset_token_valid_in names core u token
      then Some (clear_reset_token (set_password core new_password u) # rest)
      else map_option ((#) u) (reset_password_loop names core token new_password rest))"

definition reset_password_in ::
  "string list \<Rightarrow> fastapi_core \<Rightarrow> timestamp \<Rightarrow> string \<Rightarrow> string \<Rightarrow> session
     \<Rightarrow> (exn + bool) \<times> session" where
  "reset_password_in names core now token new_password s =
     (case reset_password_loop names core token new_password (working s) of
        Some rows \<Rightarrow> (Inr True, commit now (s\<lparr>working := rows\<rparr>))
      | None \<Rightarrow> (Inl (raise_error InvalidResetTokenError None), s))"

text \<open>The operation as the repository has it: the validity check runs in \<open>app/models/user.py\<close>.\<close>

definition reset_password ::
  "fastapi_core \<Rightarrow> timestamp \<Rightarrow> string \<Rightarrow> string \<Rightarrow> session \<Rightarrow> (exn + bool) \<times> session" where
  "reset_password = reset_password_in user_module_names"

definition change_password ::
  "fastapi_core \<Rightarrow> timestamp \<Rightarrow> string \<Rightarrow> string \<Rightarrow> string \<Rightarrow> session \<Rightarrow> (exn + bool) \<times> session" where
  "change_password core now uid current_password new_password s =
     (case query_first (\<lambda>u. user_id u = uid) s of
        None \<Rightarrow> (Inl (raise_error UserNotFoundError None), s)
      | Some u \<Rightarrow>
          if \<not> is_active u then (Inl (raise_error InactiveUserError None), s)
          else if \<not> verify_password core u current_password
          then (Inl (raise_error InvalidCredentialsError (Some ''Current password is incorrect'')), s)
          else (Inr True,
                commit now (mutate_first (\<lambda>u. user_id u = uid) (set_password core new_password) s)))"

text \<open>\<open>random_password\<close> is the value of \<open>secrets.token_urlsafe(32)\<close>.\<close>

definition authenticate_with_google ::
  "fastapi_core \<Rightarrow> settings \<Rightarrow> string \<Rightarrow> timestamp \<Rightarrow> string \<Rightarrow> string \<Rightarrow> string \<Rightarrow> string
     \<Rightarrow> session \<Rightarrow> (exn + LoginResponse) \<times> session" where
  "authenticate_with_google core cfg new_id now random_password em nm google_id s =
     (let normalized_email = normalize_email em;
          (u, s') = (case query_first (\<lambda>u. email u = normalized_email) s of
                       None \<Rightarrow>
                         (let u = set_password core random_password
                                    (User new_id now normalized_email nm)
                          in (u, commit now (add u s)))
                     | Some u \<Rightarrow> (u, s))
      in if \<not> is_active u then (Inl (raise_error InactiveUserError None), s')
         else (Inr (create_login_response core cfg u), s'))"

section \<open>The endpoints (\<open>app/api/v1/auth.py\<close>) and the exception handler\<close>

text \<open>
  \<open>forgot_password\<close> returns its message, the lines it logs, and the session. The
  endpoint \<open>reset_password\<close> returns its message when the service does not raise.
\<close>

definition forgot_password ::
  "fastapi_core \<Rightarrow> settings \<Rightarrow> timestamp \<Rightarrow> string \<Rightarrow> session
     \<Rightarrow> MessageResponse \<times> string list \<times> session" where
  "forgot_password core cfg now em s =
     (let (token, s') = request_password_reset core cfg now em s;
          logged = (case token of
                      None \<Rightarrow> []
                    | Some t \<Rightarrow>
                        if t \<noteq> [] \<and> environment (app cfg) = ''development''
                        then [''Password reset link for '' @ em @ '': '' @ frontend_url cfg
                                @ ''/reset-password/'' @ t]
                        else [])
      in (\<lparr>message = ''If the email exists, a password reset link has been sent''\<rparr>, logged, s'))"

definition reset_password_endpoint ::
  "fastapi_core \<Rightarrow> timestamp \<Rightarrow> string \<Rightarrow> string \<Rightarrow> session \<Rightarrow> (exn + MessageResponse) \<times> session" where
  "reset_password_endpoint core now token new_password s =
     (case reset_password core now token new_password s of
        (Inl e, s') \<Rightarrow> (Inl e, s')
      | (Inr ok, s') \<Rightarrow> (Inr \<lparr>message = ''Password has been successfully reset''\<rparr>, s'))"

text \<open>
  \<open>authentication_exception_handler\<close>: the status code, the \<open>detail\<close> of the body and
  the headers of the response the caller receives for an \<open>AuthenticationError\<close>.
\<close>

fun authentication_exception_handler :: "exn \<Rightarrow> (nat \<times> string \<times> (string \<times> string) list) option" where
  "authentication_exception_handler (AuthenticationError c msg code) =
     Some (code, msg, if code = 401 then [(''WWW-Authenticate'', ''Bearer'')] else [])"
| "authentication_exception_handler e = None"

section \<open>Properties used in the statements\<close>

text \<open>The class of the typed failure a result carries, if it is one.\<close>

fun raised :: "exn + 'a \<Rightarrow> error_class option" where
  "raised (Inl (AuthenticationError c msg code)) = Some c"
| "raised r = None"

text \<open>The account invariant: reset token and expiry are both present or both absent.\<close>

definition reset_fields_consistent :: "user \<Rightarrow> bool" where
  "reset_fields_consistent u = ((reset_token u = None) = (reset_token_expiry u = None))"

definition session_consistent :: "session \<Rightarrow> bool" where
  "session_consistent s =
     (list_all reset_fields_consistent (persisted s) \<and> list_all reset_fields_consistent (working s))"

section \<open>An example installation\<close>

text \<open>
  A small codec for running the operations on concrete data. A token is a tag
  (\<open>A\<close>ccess, \<open>R\<close>efresh, \<open>P\<close>assword reset), a mark telling whether its expiry was
  computed from settings passed by the caller (\<open>s\<close>) or from the library's own default
  (\<open>d\<close>), and the subject.
\<close>

definition example_subject :: "payload \<Rightarrow> string" where
  "example_subject d = (case payload_get d ''sub'' of JStr sid \<Rightarrow> sid | _ \<Rightarrow> [])"

definition example_mark :: "settings option \<Rightarrow> char" where
  "example_mark cfg = (case cfg of None \<Rightarrow> CHR ''d'' | Some c \<Rightarrow> CHR ''s'')"

definition example_verify_token :: "string \<Rightarrow> settings option \<Rightarrow> exn + payload" where
  "example_verify_token t cfg =
     (case t of
        tag # mark # sid \<Rightarrow>
          if tag = CHR ''A'' then Inr [(''sub'', JStr sid)]
          else if tag = CHR ''R'' then Inr [(''sub'', JStr sid), (''type'', JStr ''refresh'')]
          else if tag = CHR ''P'' then Inr [(''sub'', JStr sid), (''type'', JStr ''password_reset'')]
          else Inl (raise_error InvalidTokenError None)
      | _ \<Rightarrow> Inl (raise_error InvalidTokenError None))"

definition example_core :: fastapi_core where
  "example_core =
     \<lparr>core_get_password_hash = (\<lambda>p. ''hash:'' @ p),
      core_verify_password = (\<lambda>p h. h = ''hash:'' @ p),
      core_create_access_token = (\<lambda>d cfg. CHR ''A'' # example_mark cfg # example_subject d),
      core_create_refresh_token = (\<lambda>d cfg. CHR ''R'' # example_mark cfg # example_subject d),
      core_create_password_reset_token = (\<lambda>d cfg. CHR ''P'' # example_mark cfg # example_subject d),
      core_verify_token = example_verify_token,
      core_settings_optional = True\<rparr>"

definition example_settings :: settings where
  "example_settings =
     \<lparr>security = \<lparr>access_token_expires_minutes = 30\<rparr>, app = \<lparr>environment = ''production''\<rparr>,
      frontend_url = ''http://localhost:3000''\<rparr>"

definition alice :: user where
  "alice =
     \<lparr>user_id = ''01ARZ3NDEKTSV4RRFFQ69G5FAV'', email = ''alice@example.com'', name = ''Alice'',
      hashed_password = ''hash:Secret1!x'', is_active = True, created_at = 1000, updated_at = None,
      reset_token = None, reset_token_expiry = None, tier = ''free'', user_settings = []\<rparr>"

definition bob :: user where
  "bob =
     \<lparr>user_id = ''01BX5ZZKBKACTAV9WEVGEMMVRZ'', email = ''bob@example.com'', name = ''Bob'',
      hashed_password = ''hash:Secret2!y'', is_active = False, created_at = 1001, updated_at = None,
      reset_token = None, reset_token_expiry = None, tier = ''pro'', user_settings = []\<rparr>"

definition example_session :: session where
  "example_session = \<lparr>persisted = [alice, bob], working = [alice, bob]\<rparr>"

text \<open>The global names \<open>app/models/user.py\<close> would have with \<open>verify_token\<close> imported.\<close>

definition names_with_verify_token :: "string list" where
  "names_with_verify_token = ''verify_token'' # user_module_names"

section \<open>The reset-token check\<close>

text \<open>
  \<open>app/models/user.py\<close> imports \<open>verify_password\<close> and \<open>get_password_hash\<close> from
  \<open>fastapi_core\<close>, not \<open>verify_token\<close>: in that module the call raises
  \<open>NameError\<close>, which the \<open>except Exception\<close> clause turns into \<open>False\<close>.
\<close>

lemma verify_token_unbound_in_user_module:
  "verify_token_call user_module_names core token = Inl (NameError ''verify_token'')"
  by (simp add: verify_token_call_def user_module_names_def)

lemma is_reset_token_valid_never:
  "is_reset_token_valid core self token = False"
  by (simp add: is_reset_token_valid_def is_reset_token_valid_in_def
      verify_token_unbound_in_user_module split: option.splits)

lemma reset_password_loop_user_module:
  "reset_password_loop user_module_names core token new_password rows = None"
  by (induction rows) (simp_all add: is_reset_token_valid_never [unfolded is_reset_token_valid_def])

lemma reset_password_always_raises:
  "reset_password core now token new_password s = (Inl (raise_error InvalidResetTokenError None), s)"
  by (simp add: reset_password_def reset_password_in_def reset_password_loop_user_module)

text \<open>
  C4. \<open>is_reset_token_valid\<close> returns a boolean for every account and candidate (each
  exception inside the \<open>try\<close> block is a \<open>False\<close>), and it returns \<open>False\<close> whenever
  one of the conditions fails: no reset token is stored, the candidate does not decode,
  the decoded type is not \<open>password_reset\<close>, the decoded subject is not the account's id,
  or the candidate is not the stored token. The statement holds whatever the module's
  global names are; the method of the repository is the instance \<open>user_module_names\<close>,
  where the candidate never decodes.
\<close>

theorem is_reset_token_valid_fails_closed:
  assumes "reset_token self = None
         \<or> (\<forall>payload. verify_token_call names core token \<noteq> Inr payload)
         \<or> (\<exists>payload. verify_token_call names core token = Inr payload
               \<and> payload_get payload ''type'' \<noteq> JStr ''password_reset'')
         \<or> (\<exists>payload. verify_token_call names core token = Inr payload
               \<and> payload_get payload ''sub'' \<noteq> JStr (user_id self))
         \<or> reset_token self \<noteq> Some token"
  shows "is_reset_token_valid_in names core self token = False"
  using assms
  by (auto simp add: is_reset_token_valid_in_def compare_digest_def
      split: option.splits sum.splits)

theorem is_reset_token_valid_fails_closed_witness:
  "is_reset_token_valid example_core alice ''Ps01ARZ3NDEKTSV4RRFFQ69G5FAV'' = False
   \<and> is_reset_token_valid example_core
        (alice\<lparr>reset_token := Some ''Ps01ARZ3NDEKTSV4RRFFQ69G5FAV''\<rparr>)
        ''Ps01ARZ3NDEKTSV4RRFFQ69G5FAV'' = False
   \<and> is_reset_token_valid_in names_with_verify_token example_core
        (alice\<lparr>reset_token := Some ''Rs01ARZ3NDEKTSV4RRFFQ69G5FAV''\<rparr>)
        ''Rs01ARZ3NDEKTSV4RRFFQ69G5FAV'' = False
   \<and> is_reset_token_valid_in names_with_verify_token example_core
        (alice\<lparr>reset_token := Some ''Ps01BX5ZZKBKACTAV9WEVGEMMVRZ''\<rparr>)
        ''Ps01BX5ZZKBKACTAV9WEVGEMMVRZ'' = False
   \<and> is_reset_token_valid_in names_with_verify_token example_core
        (alice\<lparr>reset_token := Some ''Pd01ARZ3NDEKTSV4RRFFQ69G5FAV''\<rparr>)
        ''Ps01ARZ3NDEKTSV4RRFFQ69G5FAV'' = False"
proof -
  have none: "reset_token alice = None"
    by (simp add: alice_def)
  have unbound: "\<forall>payload. verify_token_call user_module_names example_core
      ''Ps01ARZ3NDEKTSV4RRFFQ69G5FAV'' \<noteq> Inr payload"
    by (simp add: verify_token_call_def user_module_names_def)
  have wrong_type: "\<exists>payload. verify_token_call names_with_verify_token example_core
      ''Rs01ARZ3NDEKTSV4RRFFQ69G5FAV'' = Inr payload
      \<and> payload_get payload ''type'' \<noteq> JStr ''password_reset''"
    by (simp add: verify_token_call_def names_with_verify_token_def example_core_def
        example_verify_token_def payload_get_def)
  have wrong_sub: "\<exists>payload. verify_token_call names_with_verify_token example_core
      ''Ps01BX5ZZKBKACTAV9WEVGEMMVRZ'' = Inr payload
      \<and> payload_get payload ''sub''
          \<noteq> JStr (user_id (alice\<lparr>reset_token := Some ''Ps01BX5ZZKBKACTAV9WEVGEMMVRZ''\<rparr>))"
    by (simp add: verify_token_call_def names_with_verify_token_def example_core_def
        example_verify_token_def payload_get_def alice_def)
  have differs: "reset_token (alice\<lparr>reset_token := Some ''Pd01ARZ3NDEKTSV4RRFFQ69G5FAV''\<rparr>)
      \<noteq> Some ''Ps01ARZ3NDEKTSV4RRFFQ69G5FAV''"
    by simp
  show ?thesis
    using is_reset_token_valid_fails_closed [where names = user_module_names
        and core = example_core and self = alice and token = "''Ps01ARZ3NDEKTSV4RRFFQ69G5FAV''"]
      is_reset_token_valid_fails_closed [where names = user_module_names
        and core = example_core
        and self = "alice\<lparr>reset_token := Some ''Ps01ARZ3NDEKTSV4RRFFQ69G5FAV''\<rparr>"
        and token = "''Ps01ARZ3NDEKTSV4RRFFQ69G5FAV''"]
      is_reset_token_valid_fails_closed [where names = names_with_verify_token
        and core = example_core
        and self = "alice\<lparr>reset_token := Some ''Rs01ARZ3NDEKTSV4RRFFQ69G5FAV''\<rparr>"
        and token = "''Rs01ARZ3NDEKTSV4RRFFQ69G5FAV''"]
      is_reset_token_valid_fails_closed [where names = names_with_verify_token
        and core = example_core
        and self = "alice\<lparr>reset_token := Some ''Ps01BX5ZZKBKACTAV9WEVGEMMVRZ''\<rparr>"
        and token = "''Ps01BX5ZZKBKACTAV9WEVGEMMVRZ''"]
      is_reset_token_valid_fails_closed [where names = names_with_verify_token
        and core = example_core
        and self = "alice\<lparr>reset_token := Some ''Pd01ARZ3NDEKTSV4RRFFQ69G5FAV''\<rparr>"
        and token = "''Ps01ARZ3NDEKTSV4RRFFQ69G5FAV''"]
      none unbound wrong_type wrong_sub differs
    unfolding is_reset_token_valid_def by blast
qed

text \<open>
  C10. The result of \<open>is_reset_token_valid\<close> is the same for two account states that
  differ only in \<open>reset_token_expiry\<close>: the stored timestamp is never read.
\<close>

theorem is_reset_token_valid_ignores_stored_expiry:
  "is_reset_token_valid_in names core (self\<lparr>reset_token_expiry := e\<rparr>) token
     = is_reset_token_valid_in names core self token
   \<and> is_reset_token_valid core (self\<lparr>reset_token_expiry := e\<rparr>) token
     = is_reset_token_valid core self token"
  by (simp add: is_reset_token_valid_def is_reset_token_valid_in_def
      split: option.splits sum.splits)

theorem is_reset_token_valid_ignores_stored_expiry_witness:
  "is_reset_token_valid_in names_with_verify_token example_core
     (alice\<lparr>reset_token := Some ''Ps01ARZ3NDEKTSV4RRFFQ69G5FAV'', reset_token_expiry := Some 0\<rparr>)
     ''Ps01ARZ3NDEKTSV4RRFFQ69G5FAV''
   = is_reset_token_valid_in names_with_verify_token example_core
     (alice\<lparr>reset_token := Some ''Ps01ARZ3NDEKTSV4RRFFQ69G5FAV''\<rparr>)
     ''Ps01ARZ3NDEKTSV4RRFFQ69G5FAV''
   \<and> is_reset_token_valid_in names_with_verify_token example_core
     (alice\<lparr>reset_token := Some ''Ps01ARZ3NDEKTSV4RRFFQ69G5FAV''\<rparr>)
     ''Ps01ARZ3NDEKTSV4RRFFQ69G5FAV'' = True"
proof -
  have "is_reset_token_valid_in names_with_verify_token example_core
     (alice\<lparr>reset_token := Some ''Ps01ARZ3NDEKTSV4RRFFQ69G5FAV''\<rparr>)
     ''Ps01ARZ3NDEKTSV4RRFFQ69G5FAV''"
    by (simp add: is_reset_token_valid_in_def names_with_verify_token_def verify_token_call_def
        example_core_def example_verify_token_def payload_get_def compare_digest_def is_ascii_def
        alice_def)
  then show ?thesis
    using is_reset_token_valid_ignores_stored_expiry
      [where names = names_with_verify_token and core = example_core
        and self = "alice\<lparr>reset_token := Some ''Ps01ARZ3NDEKTSV4RRFFQ69G5FAV''\<rparr>"
        and e = "Some 0" and token = "''Ps01ARZ3NDEKTSV4RRFFQ69G5FAV''"]
    by simp
qed

section \<open>Resetting a password\<close>

text \<open>
  C1. The run the claim describes: an active account requests a reset, the token is stored
  and committed with its expiry one hour ahead, the codec accepts the token as a
  \<open>password_reset\<close> token of that account, and \<open>reset_password\<close> is called with
  exactly that token. The operation raises \<open>InvalidResetTokenError\<close> and changes nothing.
\<close>

theorem reset_password_rejects_the_stored_token:
  "fst (request_password_reset example_core example_settings 5000 ''alice@example.com''
          example_session) = Some ''Ps01ARZ3NDEKTSV4RRFFQ69G5FAV''
   \<and> persisted (snd (request_password_reset example_core example_settings 5000
          ''alice@example.com'' example_session))
       = [alice\<lparr>updated_at := Some 5000, reset_token := Some ''Ps01ARZ3NDEKTSV4RRFFQ69G5FAV'',
                 reset_token_expiry := Some 8600\<rparr>, bob]
   \<and> core_verify_token example_core ''Ps01ARZ3NDEKTSV4RRFFQ69G5FAV'' None
       = Inr [(''sub'', JStr (user_id alice)), (''type'', JStr ''password_reset'')]
   \<and> reset_password example_core 5100 ''Ps01ARZ3NDEKTSV4RRFFQ69G5FAV'' ''N3w!Passw0rd''
        (snd (request_password_reset example_core example_settings 5000 ''alice@example.com''
               example_session))
       = (Inl (AuthenticationError InvalidResetTokenError ''Invalid or expired reset token'' 400),
          snd (request_password_reset example_core example_settings 5000 ''alice@example.com''
               example_session))"
  by (simp add: reset_password_always_raises raise_error_def request_password_reset_def
      normalize_email_def strip_def lower_char_def is_space_def query_first_def
      example_session_def alice_def bob_def example_core_def example_mark_def
      example_subject_def payload_get_def mutate_first_def commit_def set_reset_token_def
      example_verify_token_def Let_def)

section \<open>Login\<close>

text \<open>
  C2. When no account has the normalized email, and when the account exists but the
  password does not verify, \<open>authenticate_user\<close> raises the same exception: class
  \<open>InvalidCredentialsError\<close>, the default message, status 401, and the session is left
  as it was; the handler turns both into the same response.
\<close>

theorem authenticate_user_same_failure:
  assumes "query_first (\<lambda>u. email u = normalize_email em) s = None
         \<or> (\<exists>u. query_first (\<lambda>u. email u = normalize_email em) s = Some u
                \<and> \<not> verify_password core u password)"
  shows "authenticate_user core cfg em password s
           = (Inl (AuthenticationError InvalidCredentialsError ''Incorrect email or password'' 401), s)
       \<and> authentication_exception_handler
             (AuthenticationError InvalidCredentialsError ''Incorrect email or password'' 401)
           = Some (401, ''Incorrect email or password'', [(''WWW-Authenticate'', ''Bearer'')])"
  using assms by (auto simp add: authenticate_user_def raise_error_def Let_def)

theorem authenticate_user_same_failure_witness:
  "authenticate_user example_core example_settings ''nobody@example.com'' ''Secret1!x'' example_session
     = (Inl (AuthenticationError InvalidCredentialsError ''Incorrect email or password'' 401),
        example_session)
   \<and> authenticate_user example_core example_settings ''alice@example.com'' ''Wrong1!xx'' example_session
     = (Inl (AuthenticationError InvalidCredentialsError ''Incorrect email or password'' 401),
        example_session)
   \<and> raised (fst (authenticate_user example_core example_settings ''alice@example.com''
                    ''Secret1!x'' example_session)) = None"
proof -
  have absent: "query_first (\<lambda>u. email u = normalize_email ''nobody@example.com'') example_session = None"
    by (simp add: query_first_def normalize_email_def strip_def lower_char_def is_space_def
        example_session_def alice_def bob_def)
  have found: "query_first (\<lambda>u. email u = normalize_email ''alice@example.com'') example_session
      = Some alice"
    by (simp add: query_first_def normalize_email_def strip_def lower_char_def is_space_def
        example_session_def alice_def bob_def)
  have mismatch: "\<not> verify_password example_core alice ''Wrong1!xx''"
    by (simp add: verify_password_def example_core_def alice_def)
  have ok: "raised (fst (authenticate_user example_core example_settings ''alice@example.com''
                    ''Secret1!x'' example_session)) = None"
    by (simp add: authenticate_user_def found Let_def verify_password_def example_core_def
        alice_def)
  show ?thesis
    using authenticate_user_same_failure [where em = "''nobody@example.com''"
        and s = example_session and core = example_core and cfg = example_settings
        and password = "''Secret1!x''"]
      authenticate_user_same_failure [where em = "''alice@example.com''"
        and s = example_session and core = example_core and cfg = example_settings
        and password = "''Wrong1!xx''"]
      absent found mismatch ok
    by blast
qed

section \<open>Requesting a password reset\<close>

lemma find_update_first:
  "find P xs = Some x \<Longrightarrow> P (f x) \<Longrightarrow> find P (update_first P f xs) = Some (f x)"
  by (induction xs) (auto split: if_splits)

lemma find_flush:
  assumes "find P ws = Some w" and "\<And>x t. P (x\<lparr>updated_at := t\<rparr>) = P x"
  shows "find P (flush now ps ws) = Some w \<or> find P (flush now ps ws) = Some (w\<lparr>updated_at := Some now\<rparr>)"
  using assms(1)
proof (induction now ps ws rule: flush.induct)
  case (1 now p ps w' ws)
  then show ?case using assms(2) by (auto split: if_splits)
qed simp_all

lemma request_password_reset_None:
  "query_first (\<lambda>u. email u = normalize_email em) s = None
   \<Longrightarrow> request_password_reset core cfg now em s = (None, s)"
  by (simp add: request_password_reset_def)

lemma request_password_reset_inactive:
  "query_first (\<lambda>u. email u = normalize_email em) s = Some u \<Longrightarrow> \<not> is_active u
   \<Longrightarrow> request_password_reset core cfg now em s = (None, s)"
  by (simp add: request_password_reset_def)

lemma request_password_reset_active:
  "query_first (\<lambda>u. email u = normalize_email em) s = Some u \<Longrightarrow> is_active u
   \<Longrightarrow> request_password_reset core cfg now em s
       = (Some (core_create_password_reset_token core [(''sub'', JStr (user_id u))] (Some cfg)),
          commit now (mutate_first (\<lambda>u. email u = normalize_email em)
            (set_reset_token (core_create_password_reset_token core [(''sub'', JStr (user_id u))] (Some cfg))
               (now + 3600)) s))"
  by (simp add: request_password_reset_def Let_def)

lemma committed_reset_token:
  assumes "query_first (\<lambda>u. email u = e) s = Some u"
  shows "\<exists>u'. find (\<lambda>u. email u = e)
             (persisted (commit now (mutate_first (\<lambda>u. email u = e) (set_reset_token t x) s))) = Some u'
           \<and> reset_token u' = Some t \<and> reset_token_expiry u' = Some x"
proof -
  have found: "find (\<lambda>u. email u = e) (working s) = Some u"
    using assms by (simp add: query_first_def)
  then have "email u = e"
    by (auto simp add: find_Some_iff)
  then have "find (\<lambda>u. email u = e) (update_first (\<lambda>u. email u = e) (set_reset_token t x) (working s))
      = Some (set_reset_token t x u)"
    using found by (intro find_update_first) (simp_all add: set_reset_token_def)
  then have "find (\<lambda>u. email u = e)
        (flush now (persisted s) (update_first (\<lambda>u. email u = e) (set_reset_token t x) (working s)))
          = Some (set_reset_token t x u)
      \<or> find (\<lambda>u. email u = e)
        (flush now (persisted s) (update_first (\<lambda>u. email u = e) (set_reset_token t x) (working s)))
          = Some ((set_reset_token t x u)\<lparr>updated_at := Some now\<rparr>)"
    by (intro find_flush) simp_all
  then show ?thesis
    by (auto simp add: commit_def mutate_first_def Let_def set_reset_token_def)
qed

text \<open>
  C3. \<open>forgot_password\<close> returns the same message for every email. If an account with
  the normalized email exists and is active, the committed row of that account holds the
  new reset token and an expiry one hour ahead; if it is absent or inactive, the session
  (committed and uncommitted rows) is unchanged.
\<close>

theorem forgot_password_same_message:
  "fst (forgot_password core cfg now em s)
     = \<lparr>message = ''If the email exists, a password reset link has been sent''\<rparr>
   \<and> (case query_first (\<lambda>u. email u = normalize_email em) s of
        None \<Rightarrow> snd (snd (forgot_password core cfg now em s)) = s
      | Some u \<Rightarrow>
          if is_active u
          then (\<exists>u'. find (\<lambda>u. email u = normalize_email em)
                        (persisted (snd (snd (forgot_password core cfg now em s)))) = Some u'
                      \<and> reset_token u'
                          = Some (core_create_password_reset_token core
                                    [(''sub'', JStr (user_id u))] (Some cfg))
                      \<and> reset_token_expiry u' = Some (now + 3600))
               \<and> working (snd (snd (forgot_password core cfg now em s)))
                   = persisted (snd (snd (forgot_password core cfg now em s)))
          else snd (snd (forgot_password core cfg now em s)) = s)"
proof -
  have msg: "fst (forgot_password core cfg now em s)
     = \<lparr>message = ''If the email exists, a password reset link has been sent''\<rparr>"
    by (simp add: forgot_password_def Let_def split: prod.splits)
  have st: "snd (snd (forgot_password core cfg now em s))
      = snd (request_password_reset core cfg now em s)"
    by (simp add: forgot_password_def Let_def split: prod.splits)
  show ?thesis
  proof (cases "query_first (\<lambda>u. email u = normalize_email em) s")
    case None
    then show ?thesis
      using msg by (simp add: st request_password_reset_None)
  next
    case (Some u)
    show ?thesis
    proof (cases "is_active u")
      case False
      then show ?thesis
        using msg Some by (simp add: st request_password_reset_inactive)
    next
      case True
      have "working (snd (request_password_reset core cfg now em s))
          = persisted (snd (request_password_reset core cfg now em s))"
        by (simp add: request_password_reset_active [OF Some True] commit_def Let_def)
      then show ?thesis
        using msg Some True committed_reset_token [OF Some]
        by (simp add: st request_password_reset_active [OF Some True])
    qed
  qed
qed

lemma example_lookups:
  "query_first (\<lambda>u. email u = normalize_email ''nobody@example.com'') example_session = None"
  "query_first (\<lambda>u. email u = normalize_email ''alice@example.com'') example_session = Some alice"
  "query_first (\<lambda>u. email u = normalize_email ''bob@example.com'') example_session = Some bob"
  by (simp_all add: query_first_def normalize_email_def strip_def lower_char_def is_space_def
      example_session_def alice_def bob_def)

theorem forgot_password_same_message_witness:
  "fst (forgot_password example_core example_settings 5000 ''nobody@example.com'' example_session)
     = fst (forgot_password example_core example_settings 5000 ''alice@example.com'' example_session)
   \<and> snd (snd (forgot_password example_core example_settings 5000 ''nobody@example.com''
                  example_session)) = example_session
   \<and> snd (snd (forgot_password example_core example_settings 5000 ''bob@example.com''
                  example_session)) = example_session
   \<and> persisted (snd (snd (forgot_password example_core example_settings 5000 ''alice@example.com''
                  example_session)))
       = [alice\<lparr>updated_at := Some 5000, reset_token := Some ''Ps01ARZ3NDEKTSV4RRFFQ69G5FAV'',
                 reset_token_expiry := Some 8600\<rparr>, bob]"
proof -
  have stored: "persisted (snd (snd (forgot_password example_core example_settings 5000
                  ''alice@example.com'' example_session)))
       = [alice\<lparr>updated_at := Some 5000, reset_token := Some ''Ps01ARZ3NDEKTSV4RRFFQ69G5FAV'',
                 reset_token_expiry := Some 8600\<rparr>, bob]"
    by (simp add: forgot_password_def request_password_reset_def query_first_def
        normalize_email_def strip_def lower_char_def is_space_def Let_def
        example_session_def alice_def bob_def example_core_def example_mark_def
        example_subject_def payload_get_def mutate_first_def commit_def set_reset_token_def)
  show ?thesis
    using forgot_password_same_message [of example_core example_settings 5000
        "''nobody@example.com''" example_session]
      forgot_password_same_message [of example_core example_settings 5000
        "''bob@example.com''" example_session]
      forgot_password_same_message [of example_core example_settings 5000
        "''alice@example.com''" example_session]
      stored
    by (simp add: example_lookups bob_def)
qed

section \<open>Refreshing tokens\<close>

text \<open>
  C5. For every token: an exception of the decoder propagates; for a token that decodes,
  \<open>refresh_tokens\<close> checks in this order: a type claim other than \<open>refresh\<close> raises
  \<open>InvalidTokenTypeError\<close>; a subject that is missing or is not a string of 26
  characters raises \<open>InvalidTokenError\<close>; no account with the subject id raises
  \<open>UserNotFoundError\<close>; an inactive account raises \<open>InactiveUserError\<close>. A token pair
  is returned only when the token decodes and all checks pass; it is then the pair the two
  constructors give for the account, provided the library accepts a call without settings.
  The session is never changed.
\<close>

theorem refresh_tokens_failure_order:
  "(\<forall>e. core_verify_token core tok (Some cfg) = Inl e
        \<longrightarrow> fst (refresh_tokens core cfg tok s) = Inl e)
   \<and> (\<forall>payload. core_verify_token core tok (Some cfg) = Inr payload \<longrightarrow>
         (payload_get payload ''type'' \<noteq> JStr ''refresh''
            \<longrightarrow> raised (fst (refresh_tokens core cfg tok s)) = Some InvalidTokenTypeError)
       \<and> (payload_get payload ''type'' = JStr ''refresh''
            \<and> (\<forall>sid. payload_get payload ''sub'' = JStr sid \<longrightarrow> length sid \<noteq> 26)
            \<longrightarrow> raised (fst (refresh_tokens core cfg tok s)) = Some InvalidTokenError)
       \<and> (\<forall>sid. payload_get payload ''type'' = JStr ''refresh''
            \<and> payload_get payload ''sub'' = JStr sid \<and> length sid = 26
            \<longrightarrow> (case query_first (\<lambda>u. user_id u = sid) s of
                   None \<Rightarrow> raised (fst (refresh_tokens core cfg tok s)) = Some UserNotFoundError
                 | Some u \<Rightarrow>
                     if \<not> is_active u
                     then raised (fst (refresh_tokens core cfg tok s)) = Some InactiveUserError
                     else if core_settings_optional core
                     then fst (refresh_tokens core cfg tok s)
                            = Inr \<lparr>accessToken = core_create_access_token core
                                                    [(''sub'', JStr (user_id u))] None,
                                   refreshToken = core_create_refresh_token core
                                                    [(''sub'', JStr (user_id u))] None,
                                   tokenType = ''bearer'',
                                   expiresIn = access_token_expires_minutes (security cfg) * 60\<rparr>
                     else (\<exists>msg. fst (refresh_tokens core cfg tok s) = Inl (TypeError msg)))))
   \<and> ((\<exists>r. fst (refresh_tokens core cfg tok s) = Inr r)
        \<longrightarrow> (\<exists>payload sid u. core_verify_token core tok (Some cfg) = Inr payload
               \<and> payload_get payload ''type'' = JStr ''refresh''
               \<and> payload_get payload ''sub'' = JStr sid \<and> length sid = 26
               \<and> query_first (\<lambda>u. user_id u = sid) s = Some u \<and> is_active u))
   \<and> snd (refresh_tokens core cfg tok s) = s"
proof (cases "core_verify_token core tok (Some cfg)")
  case (Inl e)
  then show ?thesis
    by (simp add: refresh_tokens_def)
next
  case (Inr payload)
  then show ?thesis
    by (cases "payload_get payload ''sub''")
       (auto simp add: refresh_tokens_def raise_error_def Let_def split: option.splits)
qed

theorem refresh_tokens_failure_order_witness:
  "fst (refresh_tokens example_core example_settings ''not a token'' example_session)
     = Inl (AuthenticationError InvalidTokenError ''Invalid token'' 401)
   \<and> raised (fst (refresh_tokens example_core example_settings ''As01ARZ3NDEKTSV4RRFFQ69G5FAV''
             example_session)) = Some InvalidTokenTypeError
   \<and> raised (fst (refresh_tokens example_core example_settings ''Rs'' example_session))
       = Some InvalidTokenError
   \<and> raised (fst (refresh_tokens example_core example_settings ''Rs01ARZ3'' example_session))
       = Some InvalidTokenError
   \<and> raised (fst (refresh_tokens example_core example_settings ''Rs01CCCCCCCCCCCCCCCCCCCCCCCC''
             example_session)) = Some UserNotFoundError
   \<and> raised (fst (refresh_tokens example_core example_settings ''Rs01BX5ZZKBKACTAV9WEVGEMMVRZ''
             example_session)) = Some InactiveUserError
   \<and> fst (refresh_tokens example_core example_settings ''Rs01ARZ3NDEKTSV4RRFFQ69G5FAV''
             example_session)
       = Inr \<lparr>accessToken = ''Ad01ARZ3NDEKTSV4RRFFQ69G5FAV'',
              refreshToken = ''Rd01ARZ3NDEKTSV4RRFFQ69G5FAV'', tokenType = ''bearer'',
              expiresIn = 1800\<rparr>
   \<and> (\<exists>msg. fst (refresh_tokens (example_core\<lparr>core_settings_optional := False\<rparr>)
                   example_settings ''Rs01ARZ3NDEKTSV4RRFFQ69G5FAV'' example_session)
              = Inl (TypeError msg))"
proof -
  have d0: "core_verify_token example_core ''not a token'' (Some example_settings)
      = Inl (AuthenticationError InvalidTokenError ''Invalid token'' 401)"
    by (simp add: example_core_def example_verify_token_def raise_error_def)
  have d1: "core_verify_token example_core ''As01ARZ3NDEKTSV4RRFFQ69G5FAV'' (Some example_settings)
      = Inr [(''sub'', JStr ''01ARZ3NDEKTSV4RRFFQ69G5FAV'')]"
    by (simp add: example_core_def example_verify_token_def)
  have d2: "core_verify_token example_core ''Rs'' (Some example_settings)
      = Inr [(''sub'', JStr ''''), (''type'', JStr ''refresh'')]"
    by (simp add: example_core_def example_verify_token_def)
  have d3: "core_verify_token example_core ''Rs01ARZ3'' (Some example_settings)
      = Inr [(''sub'', JStr ''01ARZ3''), (''type'', JStr ''refresh'')]"
    by (simp add: example_core_def example_verify_token_def)
  have d4: "core_verify_token example_core ''Rs01CCCCCCCCCCCCCCCCCCCCCCCC'' (Some example_settings)
      = Inr [(''sub'', JStr ''01CCCCCCCCCCCCCCCCCCCCCCCC''), (''type'', JStr ''refresh'')]"
    by (simp add: example_core_def example_verify_token_def)
  have d5: "core_verify_token example_core ''Rs01BX5ZZKBKACTAV9WEVGEMMVRZ'' (Some example_settings)
      = Inr [(''sub'', JStr ''01BX5ZZKBKACTAV9WEVGEMMVRZ''), (''type'', JStr ''refresh'')]"
    by (simp add: example_core_def example_verify_token_def)
  have d6: "core_verify_token example_core ''Rs01ARZ3NDEKTSV4RRFFQ69G5FAV'' (Some example_settings)
      = Inr [(''sub'', JStr ''01ARZ3NDEKTSV4RRFFQ69G5FAV''), (''type'', JStr ''refresh'')]"
    by (simp add: example_core_def example_verify_token_def)
  have d7: "core_verify_token (example_core\<lparr>core_settings_optional := False\<rparr>)
        ''Rs01ARZ3NDEKTSV4RRFFQ69G5FAV'' (Some example_settings)
      = Inr [(''sub'', JStr ''01ARZ3NDEKTSV4RRFFQ69G5FAV''), (''type'', JStr ''refresh'')]"
    by (simp add: example_core_def example_verify_token_def)
  have by_id:
    "query_first (\<lambda>u. user_id u = ''01CCCCCCCCCCCCCCCCCCCCCCCC'') example_session = None"
    "query_first (\<lambda>u. user_id u = ''01BX5ZZKBKACTAV9WEVGEMMVRZ'') example_session = Some bob"
    "query_first (\<lambda>u. user_id u = ''01ARZ3NDEKTSV4RRFFQ69G5FAV'') example_session = Some alice"
    by (simp_all add: query_first_def example_session_def alice_def bob_def)
  have flags: "\<not> is_active bob" "is_active alice"
    "user_id alice = ''01ARZ3NDEKTSV4RRFFQ69G5FAV''"
    "access_token_expires_minutes (security example_settings) * 60 = 1800"
    "core_create_access_token example_core [(''sub'', JStr ''01ARZ3NDEKTSV4RRFFQ69G5FAV'')] None
       = ''Ad01ARZ3NDEKTSV4RRFFQ69G5FAV''"
    "core_create_refresh_token example_core [(''sub'', JStr ''01ARZ3NDEKTSV4RRFFQ69G5FAV'')] None
       = ''Rd01ARZ3NDEKTSV4RRFFQ69G5FAV''"
    "core_settings_optional example_core"
    by (simp_all add: alice_def bob_def example_settings_def example_core_def example_mark_def
        example_subject_def payload_get_def)
  show ?thesis
    using refresh_tokens_failure_order [of example_core "''not a token''" example_settings
        example_session]
      refresh_tokens_failure_order [of example_core "''As01ARZ3NDEKTSV4RRFFQ69G5FAV''"
        example_settings example_session]
      refresh_tokens_failure_order [of example_core "''Rs''" example_settings example_session]
      refresh_tokens_failure_order [of example_core "''Rs01ARZ3''" example_settings
        example_session]
      refresh_tokens_failure_order [of example_core "''Rs01CCCCCCCCCCCCCCCCCCCCCCCC''"
        example_settings example_session]
      refresh_tokens_failure_order [of example_core "''Rs01BX5ZZKBKACTAV9WEVGEMMVRZ''"
        example_settings example_session]
      refresh_tokens_failure_order [of example_core "''Rs01ARZ3NDEKTSV4RRFFQ69G5FAV''"
        example_settings example_session]
      refresh_tokens_failure_order [of "example_core\<lparr>core_settings_optional := False\<rparr>"
        "''Rs01ARZ3NDEKTSV4RRFFQ69G5FAV''" example_settings example_session]
    by (simp add: d0 d1 d2 d3 d4 d5 d6 d7 payload_get_def by_id flags)
qed

section \<open>Failure leaves the store unchanged\<close>

text \<open>
  C7. Whenever \<open>register_user\<close>, \<open>reset_password\<close> or \<open>change_password\<close> raises, and
  whenever \<open>request_password_reset\<close> produces no token, the session it leaves is the
  session it was given: no committed and no uncommitted row has changed. For
  \<open>reset_password\<close> this holds whatever the global names of the model module are.
\<close>

theorem failed_operation_changes_nothing:
  "(\<forall>e. fst (register_user core cfg new_id now em password nm s) = Inl e
        \<longrightarrow> snd (register_user core cfg new_id now em password nm s) = s)
   \<and> (fst (request_password_reset core cfg now em s) = None
        \<longrightarrow> snd (request_password_reset core cfg now em s) = s)
   \<and> (\<forall>e. fst (reset_password_in names core now token new_password s) = Inl e
        \<longrightarrow> snd (reset_password_in names core now token new_password s) = s)
   \<and> (\<forall>e. fst (reset_password core now token new_password s) = Inl e
        \<longrightarrow> snd (reset_password core now token new_password s) = s)
   \<and> (\<forall>e. fst (change_password core now uid current_password new_password s) = Inl e
        \<longrightarrow> snd (change_password core now uid current_password new_password s) = s)"
proof -
  have reg: "\<forall>e. fst (register_user core cfg new_id now em password nm s) = Inl e
        \<longrightarrow> snd (register_user core cfg new_id now em password nm s) = s"
    by (simp add: register_user_def Let_def split: option.splits)
  have req: "fst (request_password_reset core cfg now em s) = None
        \<longrightarrow> snd (request_password_reset core cfg now em s) = s"
    by (simp add: request_password_reset_def Let_def split: option.splits)
  have rst: "\<forall>e. fst (reset_password_in names core now token new_password s) = Inl e
        \<longrightarrow> snd (reset_password_in names core now token new_password s) = s" for names
    by (simp add: reset_password_in_def split: option.splits)
  have chg: "\<forall>e. fst (change_password core now uid current_password new_password s) = Inl e
        \<longrightarrow> snd (change_password core now uid current_password new_password s) = s"
    by (simp add: change_password_def split: option.splits)
  show ?thesis
    using reg req rst chg unfolding reset_password_def by blast
qed

theorem failed_operation_changes_nothing_witness:
  "register_user example_core example_settings ''01CCCCCCCCCCCCCCCCCCCCCCCC'' 5000
       ''alice@example.com'' ''Secret3!z'' ''Al'' example_session
     = (Inl (AuthenticationError UserAlreadyExistsError ''User with this email already exists'' 409),
        example_session)
   \<and> request_password_reset example_core example_settings 5000 ''bob@example.com'' example_session
     = (None, example_session)
   \<and> reset_password_in names_with_verify_token example_core 5000 ''Ps01ARZ3NDEKTSV4RRFFQ69G5FAV''
       ''N3w!Passw0rd'' example_session
     = (Inl (AuthenticationError InvalidResetTokenError ''Invalid or expired reset token'' 400),
        example_session)
   \<and> reset_password example_core 5000 ''Ps01ARZ3NDEKTSV4RRFFQ69G5FAV'' ''N3w!Passw0rd''
       example_session
     = (Inl (AuthenticationError InvalidResetTokenError ''Invalid or expired reset token'' 400),
        example_session)
   \<and> change_password example_core 5000 ''01ARZ3NDEKTSV4RRFFQ69G5FAV'' ''Wrong1!xx'' ''N3w!Passw0rd''
       example_session
     = (Inl (AuthenticationError InvalidCredentialsError ''Current password is incorrect'' 401),
        example_session)"
proof -
  have f1: "fst (register_user example_core example_settings ''01CCCCCCCCCCCCCCCCCCCCCCCC'' 5000
       ''alice@example.com'' ''Secret3!z'' ''Al'' example_session)
     = Inl (AuthenticationError UserAlreadyExistsError ''User with this email already exists'' 409)"
    by (simp add: register_user_def example_lookups raise_error_def)
  have f2: "fst (request_password_reset example_core example_settings 5000 ''bob@example.com''
       example_session) = None"
    by (simp add: request_password_reset_def example_lookups bob_def)
  have f3: "fst (reset_password_in names_with_verify_token example_core 5000
       ''Ps01ARZ3NDEKTSV4RRFFQ69G5FAV'' ''N3w!Passw0rd'' example_session)
     = Inl (AuthenticationError InvalidResetTokenError ''Invalid or expired reset token'' 400)"
    by (simp add: reset_password_in_def example_session_def alice_def bob_def raise_error_def)
  have f4: "fst (reset_password example_core 5000 ''Ps01ARZ3NDEKTSV4RRFFQ69G5FAV'' ''N3w!Passw0rd''
       example_session)
     = Inl (AuthenticationError InvalidResetTokenError ''Invalid or expired reset token'' 400)"
    by (simp add: reset_password_def reset_password_in_def example_session_def alice_def bob_def
        raise_error_def)
  have f5: "fst (change_password example_core 5000 ''01ARZ3NDEKTSV4RRFFQ69G5FAV'' ''Wrong1!xx''
       ''N3w!Passw0rd'' example_session)
     = Inl (AuthenticationError InvalidCredentialsError ''Current password is incorrect'' 401)"
    by (simp add: change_password_def query_first_def example_session_def alice_def
        verify_password_def example_core_def raise_error_def)
  show ?thesis
    using failed_operation_changes_nothing [where core = example_core and cfg = example_settings
        and new_id = "''01CCCCCCCCCCCCCCCCCCCCCCCC''" and now = 5000
        and em = "''alice@example.com''" and password = "''Secret3!z''" and nm = "''Al''"
        and s = example_session]
      failed_operation_changes_nothing [where core = example_core and cfg = example_settings
        and now = 5000 and em = "''bob@example.com''" and s = example_session
        and names = names_with_verify_token and token = "''Ps01ARZ3NDEKTSV4RRFFQ69G5FAV''"
        and new_password = "''N3w!Passw0rd''" and uid = "''01ARZ3NDEKTSV4RRFFQ69G5FAV''"
        and current_password = "''Wrong1!xx''"]
      f1 f2 f3 f4 f5
    by (simp add: prod_eq_iff)
qed

section \<open>The public account view\<close>

text \<open>
  C8. The account view carries exactly six fields, each the account's attribute of that
  name: id, email, name, isActive (the active flag), createdAt (the creation timestamp) and
  tier. It does not depend on the password hash, the reset token or the reset-token expiry,
  and it is the view that \<open>register_user\<close>, \<open>authenticate_user\<close> and
  \<open>get_user_profile\<close> return.
\<close>

theorem public_view_fields:
  "model_validate u
     = \<lparr>resp_id = user_id u, resp_email = email u, resp_name = name u, isActive = is_active u,
        createdAt = created_at u, resp_tier = tier u\<rparr>
   \<and> UserResponse_fields (model_validate u)
       = [(''id'', VStr (user_id u)), (''email'', VStr (email u)), (''name'', VStr (name u)),
          (''isActive'', VBool (is_active u)), (''createdAt'', VTime (created_at u)),
          (''tier'', VStr (tier u))]
   \<and> to_dict u
       = [(''id'', VStr (user_id u)), (''email'', VStr (email u)), (''name'', VStr (name u)),
          (''isActive'', VBool (is_active u)), (''createdAt'', VTime (created_at u)),
          (''tier'', VStr (tier u))]
   \<and> map fst (UserResponse_fields (model_validate u))
       = [''id'', ''email'', ''name'', ''isActive'', ''createdAt'', ''tier'']
   \<and> map fst (to_dict u) = [''id'', ''email'', ''name'', ''isActive'', ''createdAt'', ''tier'']
   \<and> model_validate (u\<lparr>hashed_password := h, reset_token := t, reset_token_expiry := x\<rparr>)
       = model_validate u
   \<and> to_dict (u\<lparr>hashed_password := h, reset_token := t, reset_token_expiry := x\<rparr>) = to_dict u
   \<and> get_user_profile u = model_validate u
   \<and> (\<forall>r. fst (register_user core cfg new_id now em password nm s) = Inr r
         \<longrightarrow> login_user r
             = model_validate (set_password core password (User new_id now (normalize_email em) nm)))
   \<and> (\<forall>r. fst (authenticate_user core cfg em password s) = Inr r
         \<longrightarrow> (\<exists>a. query_first (\<lambda>u. email u = normalize_email em) s = Some a
                  \<and> login_user r = model_validate a))"
  by (auto simp add: UserResponse_fields_def model_validate_def to_dict_def get_user_profile_def
      register_user_def authenticate_user_def create_login_response_def Let_def
      split: option.splits if_splits)

theorem public_view_fields_witness:
  "login_user (projr (fst (authenticate_user example_core example_settings ''alice@example.com''
       ''Secret1!x'' example_session)))
     = \<lparr>resp_id = ''01ARZ3NDEKTSV4RRFFQ69G5FAV'', resp_email = ''alice@example.com'',
        resp_name = ''Alice'', isActive = True, createdAt = 1000, resp_tier = ''free''\<rparr>
   \<and> login_user (projr (fst (register_user example_core example_settings
       ''01CCCCCCCCCCCCCCCCCCCCCCCC'' 5000 ''carol@example.com'' ''Secret3!z'' ''Carol''
       example_session)))
     = \<lparr>resp_id = ''01CCCCCCCCCCCCCCCCCCCCCCCC'', resp_email = ''carol@example.com'',
        resp_name = ''Carol'', isActive = True, createdAt = 5000, resp_tier = ''free''\<rparr>
   \<and> get_user_profile bob
     = \<lparr>resp_id = ''01BX5ZZKBKACTAV9WEVGEMMVRZ'', resp_email = ''bob@example.com'',
        resp_name = ''Bob'', isActive = False, createdAt = 1001, resp_tier = ''pro''\<rparr>
   \<and> UserResponse_fields (get_user_profile bob)
     = [(''id'', VStr ''01BX5ZZKBKACTAV9WEVGEMMVRZ''), (''email'', VStr ''bob@example.com''),
        (''name'', VStr ''Bob''), (''isActive'', VBool False), (''createdAt'', VTime 1001),
        (''tier'', VStr ''pro'')]
   \<and> to_dict (bob\<lparr>hashed_password := ''hash:Other9?w'',
                   reset_token := Some ''Ps01BX5ZZKBKACTAV9WEVGEMMVRZ'',
                   reset_token_expiry := Some 8600\<rparr>)
     = [(''id'', VStr ''01BX5ZZKBKACTAV9WEVGEMMVRZ''), (''email'', VStr ''bob@example.com''),
        (''name'', VStr ''Bob''), (''isActive'', VBool False), (''createdAt'', VTime 1001),
        (''tier'', VStr ''pro'')]"
proof -
  have login: "fst (authenticate_user example_core example_settings ''alice@example.com''
       ''Secret1!x'' example_session)
     = Inr (create_login_response example_core example_settings alice)"
    by (simp add: authenticate_user_def example_lookups verify_password_def example_core_def
        alice_def)
  have carol: "query_first (\<lambda>u. email u = normalize_email ''carol@example.com'') example_session
      = None"
    by (simp add: query_first_def normalize_email_def strip_def lower_char_def is_space_def
        example_session_def alice_def bob_def)
  have reg: "fst (register_user example_core example_settings
       ''01CCCCCCCCCCCCCCCCCCCCCCCC'' 5000 ''carol@example.com'' ''Secret3!z'' ''Carol''
       example_session)
     = Inr (create_login_response example_core example_settings
         (set_password example_core ''Secret3!z''
            (User ''01CCCCCCCCCCCCCCCCCCCCCCCC'' 5000 (normalize_email ''carol@example.com'')
               ''Carol'')))"
    by (simp add: register_user_def carol Let_def)
  have norm: "normalize_email ''carol@example.com'' = ''carol@example.com''"
    by (simp add: normalize_email_def strip_def lower_char_def is_space_def)
  have attrs: "user_id alice = ''01ARZ3NDEKTSV4RRFFQ69G5FAV''" "email alice = ''alice@example.com''"
    "name alice = ''Alice''" "is_active alice" "created_at alice = 1000" "tier alice = ''free''"
    "user_id bob = ''01BX5ZZKBKACTAV9WEVGEMMVRZ''" "email bob = ''bob@example.com''"
    "name bob = ''Bob''" "\<not> is_active bob" "created_at bob = 1001" "tier bob = ''pro''"
    by (simp_all add: alice_def bob_def)
  have view_alice: "login_user (create_login_response example_core example_settings alice)
      = \<lparr>resp_id = ''01ARZ3NDEKTSV4RRFFQ69G5FAV'', resp_email = ''alice@example.com'',
         resp_name = ''Alice'', isActive = True, createdAt = 1000, resp_tier = ''free''\<rparr>"
    using public_view_fields [where u = alice and core = example_core and cfg = example_settings
        and s = example_session and em = "''alice@example.com''" and password = "''Secret1!x''"]
    by (simp add: login example_lookups attrs)
  have view_carol: "login_user (create_login_response example_core example_settings
         (set_password example_core ''Secret3!z''
            (User ''01CCCCCCCCCCCCCCCCCCCCCCCC'' 5000 ''carol@example.com'' ''Carol'')))
      = \<lparr>resp_id = ''01CCCCCCCCCCCCCCCCCCCCCCCC'', resp_email = ''carol@example.com'',
         resp_name = ''Carol'', isActive = True, createdAt = 5000, resp_tier = ''free''\<rparr>"
    using public_view_fields [where u = "set_password example_core ''Secret3!z''
            (User ''01CCCCCCCCCCCCCCCCCCCCCCCC'' 5000 ''carol@example.com'' ''Carol'')"
        and core = example_core and cfg = example_settings
        and s = example_session and em = "''carol@example.com''" and password = "''Secret3!z''"
        and new_id = "''01CCCCCCCCCCCCCCCCCCCCCCCC''" and now = 5000 and nm = "''Carol''"]
    by (simp add: reg norm set_password_def User_def)
  have view_bob: "get_user_profile bob
     = \<lparr>resp_id = ''01BX5ZZKBKACTAV9WEVGEMMVRZ'', resp_email = ''bob@example.com'',
        resp_name = ''Bob'', isActive = False, createdAt = 1001, resp_tier = ''pro''\<rparr>"
    "UserResponse_fields (get_user_profile bob)
     = [(''id'', VStr ''01BX5ZZKBKACTAV9WEVGEMMVRZ''), (''email'', VStr ''bob@example.com''),
        (''name'', VStr ''Bob''), (''isActive'', VBool False), (''createdAt'', VTime 1001),
        (''tier'', VStr ''pro'')]"
    "to_dict (bob\<lparr>hashed_password := ''hash:Other9?w'',
                   reset_token := Some ''Ps01BX5ZZKBKACTAV9WEVGEMMVRZ'',
                   reset_token_expiry := Some 8600\<rparr>)
     = [(''id'', VStr ''01BX5ZZKBKACTAV9WEVGEMMVRZ''), (''email'', VStr ''bob@example.com''),
        (''name'', VStr ''Bob''), (''isActive'', VBool False), (''createdAt'', VTime 1001),
        (''tier'', VStr ''pro'')]"
    using public_view_fields [where u = bob and h = "''hash:Other9?w''"
        and t = "Some ''Ps01BX5ZZKBKACTAV9WEVGEMMVRZ''" and x = "Some 8600"]
    by (simp_all add: attrs UserResponse_fields_def)
  have by_login: "login_user (projr (fst (authenticate_user example_core example_settings
       ''alice@example.com'' ''Secret1!x'' example_session)))
     = \<lparr>resp_id = ''01ARZ3NDEKTSV4RRFFQ69G5FAV'', resp_email = ''alice@example.com'',
        resp_name = ''Alice'', isActive = True, createdAt = 1000, resp_tier = ''free''\<rparr>"
    by (simp add: login view_alice)
  have by_register: "login_user (projr (fst (register_user example_core example_settings
       ''01CCCCCCCCCCCCCCCCCCCCCCCC'' 5000 ''carol@example.com'' ''Secret3!z'' ''Carol''
       example_session)))
     = \<lparr>resp_id = ''01CCCCCCCCCCCCCCCCCCCCCCCC'', resp_email = ''carol@example.com'',
        resp_name = ''Carol'', isActive = True, createdAt = 5000, resp_tier = ''free''\<rparr>"
    by (simp add: reg norm view_carol)
  show ?thesis
    by (intro conjI by_login by_register view_bob)
qed

section \<open>The reset-token fields stay paired\<close>

lemma flush_keeps_property:
  assumes "\<And>w t. Q w \<Longrightarrow> Q (w\<lparr>updated_at := t\<rparr>)"
  shows "list_all Q ws \<Longrightarrow> list_all Q (flush now ps ws)"
  by (induction now ps ws rule: flush.induct) (auto simp add: assms)

lemma length_flush: "length (flush now ps ws) = length ws"
  by (induction now ps ws rule: flush.induct) simp_all

lemma update_first_keeps_property:
  assumes "\<And>x. Q x \<Longrightarrow> Q (f x)"
  shows "list_all Q xs \<Longrightarrow> list_all Q (update_first P f xs)"
  by (induction xs) (simp_all add: assms)

lemma length_update_first: "length (update_first P f xs) = length xs"
  by (induction xs) simp_all

lemma consistent_stamp:
  "reset_fields_consistent w \<Longrightarrow> reset_fields_consistent (w\<lparr>updated_at := t\<rparr>)"
  by (simp add: reset_fields_consistent_def)

lemma consistent_new_user:
  "reset_fields_consistent (set_password core password (User new_id now e n))"
  by (simp add: reset_fields_consistent_def set_password_def User_def)

lemma consistent_set_reset_token: "reset_fields_consistent (set_reset_token t x u)"
  by (simp add: reset_fields_consistent_def set_reset_token_def)

lemma consistent_set_password:
  "reset_fields_consistent u \<Longrightarrow> reset_fields_consistent (set_password core password u)"
  by (simp add: reset_fields_consistent_def set_password_def)

lemma consistent_clear_reset_token: "reset_fields_consistent (clear_reset_token u)"
  by (simp add: reset_fields_consistent_def clear_reset_token_def)

lemma commit_consistent:
  "list_all reset_fields_consistent (working s) \<Longrightarrow> session_consistent (commit now s)"
  by (simp add: session_consistent_def commit_def Let_def flush_keeps_property consistent_stamp)

lemma working_consistent:
  "session_consistent s \<Longrightarrow> list_all reset_fields_consistent (working s)"
  by (simp add: session_consistent_def)

lemma reset_password_loop_consistent:
  "reset_password_loop names core token new_password rows = Some rows'
   \<Longrightarrow> list_all reset_fields_consistent rows \<Longrightarrow> list_all reset_fields_consistent rows'"
proof (induction rows arbitrary: rows')
  case Nil
  then show ?case by simp
next
  case (Cons u rest)
  then show ?case
    by (auto simp add: consistent_clear_reset_token split: if_splits)
qed

lemma register_user_consistent:
  assumes "session_consistent s"
  shows "session_consistent (snd (register_user core cfg new_id now em password nm s))"
proof (cases "query_first (\<lambda>u. email u = normalize_email em) s")
  case None
  have "list_all reset_fields_consistent
      (working (add (set_password core password (User new_id now (normalize_email em) nm)) s))"
    using working_consistent [OF assms] by (simp add: add_def consistent_new_user)
  then show ?thesis
    using None by (simp add: register_user_def Let_def commit_consistent)
next
  case (Some existing_user)
  then show ?thesis
    using assms by (simp add: register_user_def)
qed

lemma request_password_reset_consistent:
  assumes "session_consistent s"
  shows "session_consistent (snd (request_password_reset core cfg now em s))"
proof (cases "query_first (\<lambda>u. email u = normalize_email em) s")
  case None
  then show ?thesis
    using assms by (simp add: request_password_reset_def)
next
  case (Some u)
  have "list_all reset_fields_consistent
      (working (mutate_first (\<lambda>u. email u = normalize_email em) (set_reset_token t x) s))" for t x
    using working_consistent [OF assms]
    by (simp add: mutate_first_def update_first_keeps_property consistent_set_reset_token)
  then show ?thesis
    using Some assms by (simp add: request_password_reset_def Let_def commit_consistent)
qed

lemma reset_password_in_consistent:
  assumes "session_consistent s"
  shows "session_consistent (snd (reset_password_in names core now token new_password s))"
proof (cases "reset_password_loop names core token new_password (working s)")
  case None
  then show ?thesis
    using assms by (simp add: reset_password_in_def)
next
  case (Some rows)
  have "list_all reset_fields_consistent (working (s\<lparr>working := rows\<rparr>))"
    using reset_password_loop_consistent [OF Some working_consistent [OF assms]] by simp
  then show ?thesis
    using Some by (simp add: reset_password_in_def commit_consistent)
qed

lemma change_password_consistent:
  assumes "session_consistent s"
  shows "session_consistent (snd (change_password core now uid current_password new_password s))"
proof -
  have "list_all reset_fields_consistent
      (working (mutate_first (\<lambda>u. user_id u = uid) (set_password core new_password) s))"
    using working_consistent [OF assms]
    by (simp add: mutate_first_def update_first_keeps_property consistent_set_password)
  then show ?thesis
    using assms by (simp add: change_password_def commit_consistent split: option.splits)
qed

lemma authenticate_with_google_consistent:
  assumes "session_consistent s"
  shows "session_consistent
        (snd (authenticate_with_google core cfg new_id now random_password em nm google_id s))"
proof (cases "query_first (\<lambda>u. email u = normalize_email em) s")
  case None
  have "list_all reset_fields_consistent
      (working (add (set_password core random_password (User new_id now (normalize_email em) nm)) s))"
    using working_consistent [OF assms] by (simp add: add_def consistent_new_user)
  then show ?thesis
    using None by (simp add: authenticate_with_google_def Let_def commit_consistent)
next
  case (Some u)
  then show ?thesis
    using assms by (simp add: authenticate_with_google_def Let_def)
qed

lemma request_password_reset_length:
  "length (working (snd (request_password_reset core cfg now em s))) = length (working s)"
  by (simp add: request_password_reset_def Let_def mutate_first_def commit_def length_flush
      length_update_first split: option.splits)

text \<open>
  C9. \<open>set_reset_token\<close> assigns both reset fields, whatever they held before;
  \<open>clear_reset_token\<close> clears both; a new account has neither. If in every row of a
  session the two fields are both present or both absent, the same holds after every
  operation of the service. A reset request changes a row in place: the table has as many
  rows after it as before.
\<close>

theorem reset_fields_stay_paired:
  "reset_token (set_reset_token t x u) = Some t
   \<and> reset_token_expiry (set_reset_token t x u) = Some x
   \<and> reset_token (clear_reset_token u) = None
   \<and> reset_token_expiry (clear_reset_token u) = None
   \<and> reset_token (User new_id now e n) = None
   \<and> reset_token_expiry (User new_id now e n) = None
   \<and> (session_consistent s \<longrightarrow>
         session_consistent (snd (register_user core cfg new_id now em password nm s))
       \<and> session_consistent (snd (authenticate_user core cfg em password s))
       \<and> session_consistent (snd (refresh_tokens core cfg token s))
       \<and> session_consistent (snd (request_password_reset core cfg now em s))
       \<and> session_consistent (snd (reset_password_in names core now token new_password s))
       \<and> session_consistent (snd (reset_password core now token new_password s))
       \<and> session_consistent (snd (change_password core now uid password new_password s))
       \<and> session_consistent
            (snd (authenticate_with_google core cfg new_id now password em nm google_id s)))
   \<and> length (working (snd (request_password_reset core cfg now em s))) = length (working s)"
proof -
  have fields: "reset_token (set_reset_token t x u) = Some t"
    "reset_token_expiry (set_reset_token t x u) = Some x"
    "reset_token (clear_reset_token u) = None"
    "reset_token_expiry (clear_reset_token u) = None"
    "reset_token (User new_id now e n) = None"
    "reset_token_expiry (User new_id now e n) = None"
    by (simp_all add: set_reset_token_def clear_reset_token_def User_def)
  have login: "snd (authenticate_user core cfg em password s) = s"
    by (simp add: authenticate_user_def Let_def split: option.splits)
  have refresh: "snd (refresh_tokens core cfg token s) = s"
    by (simp add: refresh_tokens_def Let_def split: sum.splits option.splits json.splits)
  show ?thesis
    using fields login refresh register_user_consistent request_password_reset_consistent
      reset_password_in_consistent change_password_consistent
      authenticate_with_google_consistent request_password_reset_length
    by (simp add: reset_password_def)
qed

theorem reset_fields_stay_paired_witness:
  "session_consistent example_session
   \<and> session_consistent (snd (request_password_reset example_core example_settings 5000
        ''alice@example.com'' example_session))
   \<and> session_consistent (snd (reset_password_in names_with_verify_token example_core 5100
        ''Ps01ARZ3NDEKTSV4RRFFQ69G5FAV'' ''N3w!Passw0rd''
        (snd (request_password_reset example_core example_settings 5000 ''alice@example.com''
               example_session))))
   \<and> working (snd (request_password_reset example_core example_settings 6000 ''alice@example.com''
        (snd (request_password_reset example_core example_settings 5000 ''alice@example.com''
               example_session))))
       = [alice\<lparr>updated_at := Some 6000, reset_token := Some ''Ps01ARZ3NDEKTSV4RRFFQ69G5FAV'',
                 reset_token_expiry := Some 9600\<rparr>, bob]"
proof -
  have base: "session_consistent example_session"
    by (simp add: session_consistent_def reset_fields_consistent_def example_session_def
        alice_def bob_def)
  have twice: "working (snd (request_password_reset example_core example_settings 6000
        ''alice@example.com''
        (snd (request_password_reset example_core example_settings 5000 ''alice@example.com''
               example_session))))
       = [alice\<lparr>updated_at := Some 6000, reset_token := Some ''Ps01ARZ3NDEKTSV4RRFFQ69G5FAV'',
                 reset_token_expiry := Some 9600\<rparr>, bob]"
    by (simp add: request_password_reset_def query_first_def
        normalize_email_def strip_def lower_char_def is_space_def Let_def
        example_session_def alice_def bob_def example_core_def example_mark_def
        example_subject_def payload_get_def mutate_first_def commit_def set_reset_token_def)
  have first: "session_consistent (snd (request_password_reset example_core example_settings 5000
        ''alice@example.com'' example_session))"
    using base reset_fields_stay_paired [where s = example_session and core = example_core
        and cfg = example_settings and now = 5000 and em = "''alice@example.com''"]
    by simp
  show ?thesis
    using base first twice
      reset_fields_stay_paired [where core = example_core and now = 5100
        and names = names_with_verify_token and token = "''Ps01ARZ3NDEKTSV4RRFFQ69G5FAV''"
        and new_password = "''N3w!Passw0rd''"
        and s = "snd (request_password_reset example_core example_settings 5000
                   ''alice@example.com'' example_session)"]
    by simp
qed

section \<open>Token issuance in \<open>refresh_tokens\<close>\<close>

text \<open>
  What the pair of \<open>refresh_tokens\<close> shares with the pair of
  \<open>_create_login_response\<close> for the same account: the claims, the token type and
  \<open>expiresIn\<close>. The settings argument is passed by the helper and omitted by
  \<open>refresh_tokens\<close>; the two pairs are equal for a library that gives the same token
  with and without it.
\<close>

lemma refresh_tokens_pair:
  assumes "fst (refresh_tokens core cfg token s) = Inr r"
  shows "\<exists>u. accessToken r = core_create_access_token core [(''sub'', JStr (user_id u))] None
           \<and> refreshToken r = core_create_refresh_token core [(''sub'', JStr (user_id u))] None
           \<and> accessToken (create_login_response core cfg u)
               = core_create_access_token core [(''sub'', JStr (user_id u))] (Some cfg)
           \<and> refreshToken (create_login_response core cfg u)
               = core_create_refresh_token core [(''sub'', JStr (user_id u))] (Some cfg)
           \<and> expiresIn r = expiresIn (create_login_response core cfg u)
           \<and> tokenType r = tokenType (create_login_response core cfg u)"
  using assms
  by (auto simp add: refresh_tokens_def create_login_response_def Let_def
      split: sum.splits option.splits json.splits if_splits)

lemma refresh_tokens_pair_when_default_agrees:
  assumes "fst (refresh_tokens core cfg token s) = Inr r"
    and "\<And>d. core_create_access_token core d None = core_create_access_token core d (Some cfg)"
    and "\<And>d. core_create_refresh_token core d None = core_create_refresh_token core d (Some cfg)"
  shows "\<exists>u. accessToken r = accessToken (create_login_response core cfg u)
           \<and> refreshToken r = refreshToken (create_login_response core cfg u)
           \<and> expiresIn r = expiresIn (create_login_response core cfg u)
           \<and> tokenType r = tokenType (create_login_response core cfg u)"
  using refresh_tokens_pair [OF assms(1)] assms(2,3) by metis

end
